theory Spec2Isabelle
  imports Main "HOL-Library.Sublist"
begin

section \<open>Time: the values of Python's datetime module that main.py uses\<close>

text \<open>
  An instant of \<^verbatim>\<open>datetime.now(timezone.utc)\<close> is a count of microseconds since
  0001-01-01T00:00:00 UTC, the first instant of the proleptic Gregorian calendar.
  A calendar date is its proleptic Gregorian ordinal: 0001-01-01 has ordinal 1, and
  2024-01-05 has ordinal 738890.
\<close>

datatype datetime = Datetime (micros: int)

datatype date = Date (ordinal: int)

definition us_per_day :: int where
  "us_per_day = 86400000000"

text \<open>\<^verbatim>\<open>dt.date()\<close>: the calendar day the instant falls in.\<close>

definition date_of :: "datetime \<Rightarrow> date" where
  "date_of t = Date (micros t div us_per_day + 1)"

text \<open>\<^verbatim>\<open>dt.toordinal()\<close>, which Python defines as \<^verbatim>\<open>dt.date().toordinal()\<close>.\<close>

definition toordinal :: "datetime \<Rightarrow> int" where
  "toordinal t = ordinal (date_of t)"

text \<open>\<^verbatim>\<open>(a - b).days\<close> for two dates.\<close>

definition days_between :: "date \<Rightarrow> date \<Rightarrow> int" where
  "days_between a b = ordinal a - ordinal b"

section \<open>Errors\<close>

text \<open>
  \<^verbatim>\<open>HTTPException(status, detail)\<close> is raised by main.py itself; \<^verbatim>\<open>IndexError\<close> is what a
  list index out of range raises; \<^verbatim>\<open>ValidationError\<close> is what a pydantic model raises on a
  field outside its declared bounds; \<^verbatim>\<open>NotConfiguredError\<close> is the failure of the storage
  helper when no database is configured.
\<close>

datatype error =
    HTTPException nat string
  | IndexError
  | ValidationError
  | NotConfiguredError

text \<open>
  \<^verbatim>\<open>xs[i]\<close> on a Python list: a negative index counts from the end, and an index outside
  the list raises.
\<close>

definition py_index :: "'a list \<Rightarrow> int \<Rightarrow> error + 'a" where
  "py_index xs i =
     (if 0 \<le> i \<and> i < int (length xs) then Inr (xs ! nat i)
      else if i < 0 \<and> - int (length xs) \<le> i then Inr (xs ! nat (int (length xs) + i))
      else Inl IndexError)"

section \<open>The challenge catalog (main.py, lines 26-59)\<close>

record challenge =
  c_id :: string
  c_title :: string
  c_description :: string
  c_mood :: string
  c_environment :: string
  c_confidence :: int

text \<open>
  A Python string is a list of code points; every code point of the seed list is below
  256. The only one outside ASCII is U+00E9 in the title of c3.
\<close>

definition SEED_CHALLENGES :: "challenge list" where
  "SEED_CHALLENGES =
    [ \<lparr> c_id = ''c1'',
        c_title = ''Give someone a genuine compliment'',
        c_description = ''Keep it specific and sincere.'',
        c_mood = ''social'', c_environment = ''public'', c_confidence = 2 \<rparr>,
      \<lparr> c_id = ''c2'',
        c_title = ''Ask a stranger about their favorite food'',
        c_description = ''If you'' @ [CHR 0x27] @ ''re shy, try a barista or cashier.'',
        c_mood = ''social'', c_environment = ''public'', c_confidence = 3 \<rparr>,
      \<lparr> c_id = ''c3'',
        c_title = ''Sit alone at a caf'' @ [CHR 0xE9] @ '' and smile at someone nearby'',
        c_description = ''A gentle moment of openness.'',
        c_mood = ''solo'', c_environment = ''public'', c_confidence = 1 \<rparr>,
      \<lparr> c_id = ''c4'',
        c_title = ''Send a kind message to a friend you haven'' @ [CHR 0x27]
                  @ ''t talked to in a while'',
        c_description = ''Low-pressure, high-warmth.'',
        c_mood = ''uplifting'', c_environment = ''home'', c_confidence = 1 \<rparr> ]"

text \<open>The request model \<^verbatim>\<open>ChallengeFilter\<close> (lines 81-85): every field is optional.\<close>

record ChallengeFilter =
  mood :: "string option"
  environment :: "string option"
  confidence_min :: "int option"
  confidence_max :: "int option"

text \<open>
  The truth value of an \<^verbatim>\<open>Optional[str]\<close> in \<^verbatim>\<open>if filters.mood:\<close>: \<^verbatim>\<open>None\<close> and the
  empty string are false.
\<close>

definition truthy_str :: "string option \<Rightarrow> bool" where
  "truthy_str s = (case s of None \<Rightarrow> False | Some v \<Rightarrow> v \<noteq> [])"

text \<open>Lines 166-174 of \<^verbatim>\<open>get_next_challenge\<close>: the four successive list comprehensions.\<close>

definition filter_candidates :: "ChallengeFilter \<Rightarrow> challenge list" where
  "filter_candidates filters =
     (let candidates = SEED_CHALLENGES;
          candidates = (if truthy_str (mood filters)
                        then [c \<leftarrow> candidates. Some (c_mood c) = mood filters]
                        else candidates);
          candidates = (if truthy_str (environment filters)
                        then [c \<leftarrow> candidates. Some (c_environment c) = environment filters]
                        else candidates);
          candidates = (case confidence_min filters of
                          Some lo \<Rightarrow> [c \<leftarrow> candidates. c_confidence c \<ge> lo]
                        | None \<Rightarrow> candidates);
          candidates = (case confidence_max filters of
                          Some hi \<Rightarrow> [c \<leftarrow> candidates. c_confidence c \<le> hi]
                        | None \<Rightarrow> candidates)
      in candidates)"

text \<open>
  Lines 176-181: the empty check, the day index and the indexing, for any candidate
  list. Python's \<^verbatim>\<open>%\<close> with a positive divisor is \<^term>\<open>(mod)\<close> on \<^typ>\<open>int\<close>.
\<close>

definition select_for_day :: "challenge list \<Rightarrow> datetime \<Rightarrow> error + challenge" where
  "select_for_day candidates now =
     (if candidates = [] then Inl (HTTPException 404 ''No challenges match those filters yet'')
      else let idx = toordinal now mod int (length candidates)
           in py_index candidates idx)"

text \<open>\<^verbatim>\<open>get_next_challenge\<close>; the reading of the clock at line 180 is the argument \<open>now\<close>.\<close>

definition get_next_challenge :: "ChallengeFilter \<Rightarrow> datetime \<Rightarrow> error + challenge" where
  "get_next_challenge filters now = select_for_day (filter_candidates filters) now"

text \<open>
  The candidate set in the words of the specification: a constraint is provided when
  its field is present, and a challenge is kept when it meets every provided constraint.
\<close>

definition satisfies_provided :: "ChallengeFilter \<Rightarrow> challenge \<Rightarrow> bool" where
  "satisfies_provided f c =
     ((case mood f of None \<Rightarrow> True | Some m \<Rightarrow> c_mood c = m) \<and>
      (case environment f of None \<Rightarrow> True | Some e \<Rightarrow> c_environment c = e) \<and>
      (case confidence_min f of None \<Rightarrow> True | Some lo \<Rightarrow> lo \<le> c_confidence c) \<and>
      (case confidence_max f of None \<Rightarrow> True | Some hi \<Rightarrow> c_confidence c \<le> hi))"

definition filter_spec :: "ChallengeFilter \<Rightarrow> challenge list" where
  "filter_spec f = [c \<leftarrow> SEED_CHALLENGES. satisfies_provided f c]"

text \<open>
  The same, with a mood or environment constraint counted as provided only when it is a
  non-empty string.
\<close>

definition satisfies_effective :: "ChallengeFilter \<Rightarrow> challenge \<Rightarrow> bool" where
  "satisfies_effective f c =
     ((case mood f of None \<Rightarrow> True | Some m \<Rightarrow> m = [] \<or> c_mood c = m) \<and>
      (case environment f of None \<Rightarrow> True | Some e \<Rightarrow> e = [] \<or> c_environment c = e) \<and>
      (case confidence_min f of None \<Rightarrow> True | Some lo \<Rightarrow> lo \<le> c_confidence c) \<and>
      (case confidence_max f of None \<Rightarrow> True | Some hi \<Rightarrow> c_confidence c \<le> hi))"

section \<open>Documents and collections\<close>

text \<open>
  The value of an \<^verbatim>\<open>_id\<close>: an ObjectId (given by its hexadecimal string) or a string.
  \<^verbatim>\<open>str(x)\<close> of either is the string it carries.
\<close>

datatype bson = ObjectId string | Str string

fun py_str :: "bson \<Rightarrow> string" where
  "py_str (ObjectId h) = h"
| "py_str (Str s) = s"

text \<open>
  A document of the collection \<^verbatim>\<open>user\<close>, with the fields of the schema \<^verbatim>\<open>User\<close> that
  main.py reads or writes. A field that the code reads with \<^verbatim>\<open>.get\<close> is an option, \<open>None\<close>
  for a key that is absent; for \<^verbatim>\<open>last_completed_at\<close>, \<open>None\<close> also stands for a stored
  value that is not a datetime (line 210).
\<close>

record user_doc =
  u_id :: bson
  u_name :: "string option"
  u_email :: "string option"
  u_mode :: "string option"
  u_xp :: "int option"
  u_streak :: "int option"
  u_last_completed_at :: "datetime option"

text \<open>A document of the collection \<^verbatim>\<open>reflection\<close>.\<close>

record reflection_doc =
  r_id :: bson
  r_user_id :: string
  r_challenge_id :: string
  r_mood_before :: int
  r_mood_after :: int
  r_note :: "string option"
  r_is_public :: bool
  r_created_at :: datetime

text \<open>
  The contents of the database: each collection in its natural (insertion) order. The
  global \<^verbatim>\<open>db\<close> of main.py is an optional database, \<open>None\<close> when no database is
  configured; as a condition (\<^verbatim>\<open>if db\<close>, line 204) a handle that is not \<^verbatim>\<open>None\<close> is true.
\<close>

record database =
  user_coll :: "user_doc list"
  reflection_coll :: "reflection_doc list"

text \<open>
  The three query documents that main.py passes for the collection \<^verbatim>\<open>user\<close>:
  \<^verbatim>\<open>{"_id": {"$exists": True}}\<close>, \<^verbatim>\<open>{"_id": v}\<close> and \<^verbatim>\<open>{"_id": {"$eq": v}}\<close>.
\<close>

datatype id_query = IdExists | IdIs bson | IdEq bson

fun id_matches :: "id_query \<Rightarrow> bson \<Rightarrow> bool" where
  "id_matches IdExists x = True"
| "id_matches (IdIs v) x = (x = v)"
| "id_matches (IdEq v) x = (x = v)"

text \<open>\<^verbatim>\<open>find_one\<close>: the first document that matches, or \<^verbatim>\<open>None\<close>.\<close>

fun find_one :: "id_query \<Rightarrow> user_doc list \<Rightarrow> user_doc option" where
  "find_one q [] = None"
| "find_one q (d # ds) = (if id_matches q (u_id d) then Some d else find_one q ds)"

text \<open>
  \<^verbatim>\<open>update_one\<close>: the update is applied to the first document that matches, and to
  nothing when none matches.
\<close>

fun update_one :: "id_query \<Rightarrow> (user_doc \<Rightarrow> user_doc) \<Rightarrow> user_doc list \<Rightarrow> user_doc list" where
  "update_one q upd [] = []"
| "update_one q upd (d # ds) =
     (if id_matches q (u_id d) then upd d # ds else d # update_one q upd ds)"

text \<open>\<^verbatim>\<open>user.get("xp", 0)\<close> and \<^verbatim>\<open>user.get("streak", 0)\<close>.\<close>

definition get_xp :: "user_doc \<Rightarrow> int" where
  "get_xp d = (case u_xp d of None \<Rightarrow> 0 | Some x \<Rightarrow> x)"

definition get_streak :: "user_doc \<Rightarrow> int" where
  "get_streak d = (case u_streak d of None \<Rightarrow> 0 | Some k \<Rightarrow> k)"

section \<open>Reflections and accrual (main.py, lines 192-230)\<close>

text \<open>
  The request model \<^verbatim>\<open>ReflectionRequest\<close> (lines 87-93). The schema \<^verbatim>\<open>Reflection\<close> of
  schemas.py has the same fields and bounds both moods to 1..5: constructing it from the
  request (line 195) raises when a mood is outside.
\<close>

record ReflectionRequest =
  rq_user_id :: string
  rq_challenge_id :: string
  rq_mood_before :: int
  rq_mood_after :: int
  rq_note :: "string option"
  rq_is_public :: bool

definition ReflectionSchema :: "ReflectionRequest \<Rightarrow> error + ReflectionRequest" where
  "ReflectionSchema p =
     (if 1 \<le> rq_mood_before p \<and> rq_mood_before p \<le> 5 \<and>
         1 \<le> rq_mood_after p \<and> rq_mood_after p \<le> 5
      then Inr p else Inl ValidationError)"

text \<open>
  What one call of \<^verbatim>\<open>submit_reflection\<close> takes from its surroundings: the identifier
  the store assigns to the inserted reflection, and the three readings of the clock (at
  the insertion, at line 206 and at line 223), in the order they are taken.
\<close>

record surroundings =
  new_id :: bson
  t_insert :: datetime
  t_today :: datetime
  t_update :: datetime

text \<open>
  Modelled from the spec: the helper \<^verbatim>\<open>create_document\<close> of the module \<^verbatim>\<open>database\<close>, which is
  not among the sources, at its call for the collection \<^verbatim>\<open>reflection\<close>. The specification
  gives a Reflection an identifier and a creation time, both assigned at creation, and
  names the failure of unavailable storage NotConfiguredError; the result is the
  identifier as a string (\<^verbatim>\<open>signup\<close> returns it as \<^verbatim>\<open>user_id\<close>).
\<close>

definition create_document ::
  "bson \<Rightarrow> datetime \<Rightarrow> ReflectionRequest \<Rightarrow> database option
     \<Rightarrow> (error + string) \<times> database option" where
  "create_document oid now ref db =
     (case db of
        None \<Rightarrow> (Inl NotConfiguredError, None)
      | Some s \<Rightarrow>
          (Inr (py_str oid),
           Some (s\<lparr>reflection_coll := reflection_coll s @
             [\<lparr>r_id = oid, r_user_id = rq_user_id ref, r_challenge_id = rq_challenge_id ref,
               r_mood_before = rq_mood_before ref, r_mood_after = rq_mood_after ref,
               r_note = rq_note ref, r_is_public = rq_is_public ref,
               r_created_at = now\<rparr>]\<rparr>)))"

text \<open>
  Lines 209-220: the XP gain and the streak computed from the stored document and
  today's date. A date is always true as a condition, so \<^verbatim>\<open>last_date and ...\<close> at line 217
  tests for \<^verbatim>\<open>None\<close>.
\<close>

definition accrue :: "date \<Rightarrow> user_doc \<Rightarrow> int \<times> int" where
  "accrue today user_doc =
     (let last = u_last_completed_at user_doc;
          last_date = map_option date_of last;
          streak = get_streak user_doc
      in if last_date = Some today then (5, streak)
         else (10, if (case last_date of None \<Rightarrow> False
                       | Some d \<Rightarrow> days_between today d = 1)
                   then streak + 1 else 1))"

text \<open>
  Lines 221-225, the update document: \<^verbatim>\<open>$set\<close> stores the two values, and \<^verbatim>\<open>$inc\<close> adds the
  gain to the stored number, an absent field counting as 0.
\<close>

definition set_and_inc :: "datetime \<Rightarrow> int \<Rightarrow> int \<Rightarrow> user_doc \<Rightarrow> user_doc" where
  "set_and_inc now streak xp_gain d =
     d\<lparr>u_last_completed_at := Some now, u_streak := Some streak,
       u_xp := Some (get_xp d + xp_gain)\<rparr>"

text \<open>
  \<^verbatim>\<open>submit_reflection\<close>: the result, and the database as the call leaves it. The first
  \<^verbatim>\<open>find_one\<close> (line 202) is overwritten by the second (line 204).
\<close>

definition submit_reflection ::
  "surroundings \<Rightarrow> ReflectionRequest \<Rightarrow> database option
     \<Rightarrow> (error + string) \<times> database option" where
  "submit_reflection env payload db =
     (case ReflectionSchema payload of
        Inl e \<Rightarrow> (Inl e, db)
      | Inr ref \<Rightarrow>
         (case create_document (new_id env) (t_insert env) ref db of
            (Inl e, db1) \<Rightarrow> (Inl e, db1)
          | (Inr reflection_id, db1) \<Rightarrow>
             (case db1 of
                None \<Rightarrow> (Inl (HTTPException 500 ''Database not configured''), db1)
              | Some s \<Rightarrow>
                 (let user_doc = find_one IdExists (user_coll s);
                      user_doc = find_one (IdIs (Str (rq_user_id payload))) (user_coll s);
                      today = date_of (t_today env)
                  in case user_doc of
                       Some u \<Rightarrow>
                         (let (xp_gain, streak) = accrue today u
                          in (Inr reflection_id,
                              Some (s\<lparr>user_coll :=
                                update_one (IdIs (Str (rq_user_id payload)))
                                  (set_and_inc (t_update env) streak xp_gain)
                                  (user_coll s)\<rparr>)))
                     | None \<Rightarrow> (Inr reflection_id, Some s)))))"

section \<open>Profile and badges (main.py, lines 62-66 and 233-269)\<close>



text \<open>
  A cursor of the collection \<^verbatim>\<open>reflection\<close>. \<^verbatim>\<open>sort("created_at", -1)\<close> orders by creation
  time, newest first; the store leaves the order of equal times open, and the model keeps
  their natural order. \<^verbatim>\<open>limit(n)\<close> keeps the first \<open>n\<close> documents; a limit of 0 is no
  limit, and a negative limit keeps \<open>-n\<close> documents (the store then also closes the cursor
  after its first batch, which the model leaves out).
\<close>

definition cursor_sort_desc :: "reflection_doc list \<Rightarrow> reflection_doc list" where
  "cursor_sort_desc docs = sort_key (\<lambda>d. - micros (r_created_at d)) docs"

definition cursor_limit :: "int \<Rightarrow> 'a list \<Rightarrow> 'a list" where
  "cursor_limit n docs = (if n = 0 then docs else take (nat \<bar>n\<bar>) docs)"





section \<open>The gallery (main.py, lines 276-292)\<close>

record gallery_item =
  g_id :: string
  g_challenge_id :: string
  g_note :: "string option"
  g_mood_after :: int
  g_created_at :: datetime

definition gallery_view :: "reflection_doc \<Rightarrow> gallery_item" where
  "gallery_view d =
     \<lparr>g_id = py_str (r_id d), g_challenge_id = r_challenge_id d, g_note = r_note d,
      g_mood_after = r_mood_after d, g_created_at = r_created_at d\<rparr>"

definition gallery :: "int \<Rightarrow> database option \<Rightarrow> error + gallery_item list" where
  "gallery limit db =
     (case db of
        None \<Rightarrow> Inl (HTTPException 500 ''Database not configured'')
      | Some s \<Rightarrow>
         (let docs = cursor_limit (min limit 50)
                       (cursor_sort_desc [d \<leftarrow> reflection_coll s. r_is_public d])
          in Inr (map gallery_view docs)))"

section \<open>Example values (specification, section 8)\<close>

text \<open>
  The instants 2024-01-05T10:00, 2024-01-05T23:00, 2024-01-06T09:00 and 2024-01-08T09:00
  UTC, a user who last completed at the first of them with a streak of 3, and a request
  of that user.
\<close>

definition t_jan5_10 :: datetime where
  "t_jan5_10 = Datetime (738889 * 86400000000 + 36000000000)"

definition t_jan5_23 :: datetime where
  "t_jan5_23 = Datetime (738889 * 86400000000 + 82800000000)"

definition t_jan6_09 :: datetime where
  "t_jan6_09 = Datetime (738890 * 86400000000 + 32400000000)"

definition t_jan8_09 :: datetime where
  "t_jan8_09 = Datetime (738892 * 86400000000 + 32400000000)"

definition example_user :: user_doc where
  "example_user =
     \<lparr>u_id = Str ''u1'', u_name = Some ''Ada'', u_email = None, u_mode = None,
      u_xp = Some 30, u_streak = Some 3, u_last_completed_at = Some t_jan5_10\<rparr>"

definition example_db :: database where
  "example_db = \<lparr>user_coll = [example_user], reflection_coll = []\<rparr>"

definition example_request :: ReflectionRequest where
  "example_request =
     \<lparr>rq_user_id = ''u1'', rq_challenge_id = ''c1'', rq_mood_before = 2,
      rq_mood_after = 4, rq_note = None, rq_is_public = True\<rparr>"

definition example_at :: "datetime \<Rightarrow> surroundings" where
  "example_at t =
     \<lparr>new_id = ObjectId ''65a0c0ffee0000000000cafe'', t_insert = t, t_today = t,
      t_update = t\<rparr>"


definition crowded_db :: database where
  "crowded_db =
     \<lparr>user_coll = [],
      reflection_coll =
        map (\<lambda>i. \<lparr>r_id = Str (replicate (Suc i) (CHR ''r'')), r_user_id = ''u1'',
                   r_challenge_id = ''c1'', r_mood_before = 2, r_mood_after = 4,
                   r_note = None, r_is_public = True,
                   r_created_at = Datetime (int i)\<rparr>) [0..<51]\<rparr>"

section \<open>Challenge selection\<close>

lemma py_index_in_range:
  "0 \<le> i \<Longrightarrow> i < int (length xs) \<Longrightarrow> py_index xs i = Inr (xs ! nat i)"
  by (simp add: py_index_def)

lemma day_index_in_range:
  assumes "candidates \<noteq> []"
  shows "0 \<le> toordinal now mod int (length candidates)"
    and "toordinal now mod int (length candidates) < int (length candidates)"
  using assms by simp_all

lemma select_for_day_nonempty:
  assumes "candidates \<noteq> []"
  shows "select_for_day candidates now =
           Inr (candidates ! nat (toordinal now mod int (length candidates)))"
  using assms day_index_in_range [OF assms, of now]
  by (simp add: select_for_day_def Let_def py_index_in_range)

lemma select_for_day_empty:
  "select_for_day [] now = Inl (HTTPException 404 ''No challenges match those filters yet'')"
  by (simp add: select_for_day_def)




section \<open>The candidate set\<close>

text \<open>
  Claim C4, as stated, fails: a mood given as the empty string is a provided constraint
  that no seed challenge satisfies, yet the code keeps the whole catalog.
\<close>

theorem filter_candidates_empty_mood_counterexample:
  "filter_candidates
     \<lparr>mood = Some [], environment = None, confidence_min = None, confidence_max = None\<rparr>
     = SEED_CHALLENGES
   \<and> filter_spec
     \<lparr>mood = Some [], environment = None, confidence_min = None, confidence_max = None\<rparr>
     = []
   \<and> filter_candidates
     \<lparr>mood = Some [], environment = None, confidence_min = None, confidence_max = None\<rparr>
   \<noteq> filter_spec
     \<lparr>mood = Some [], environment = None, confidence_min = None, confidence_max = None\<rparr>"
  by (simp add: filter_candidates_def filter_spec_def satisfies_provided_def truthy_str_def
      SEED_CHALLENGES_def)

text \<open>
  Claim C4, amended. For every filter input the candidate set is exactly the catalog
  challenges that satisfy every provided constraint, in catalog order, where a mood or
  environment constraint counts as provided only when it is a non-empty string and a
  confidence bound counts as provided whenever it is present.
\<close>

theorem filter_candidates_effective:
  "filter_candidates f = [c \<leftarrow> SEED_CHALLENGES. satisfies_effective f c]"
  by (auto simp: filter_candidates_def satisfies_effective_def truthy_str_def Let_def
      split: option.splits intro!: filter_cong)

theorem filter_candidates_effective_witness:
  "filter_candidates
     \<lparr>mood = Some ''social'', environment = Some [], confidence_min = Some 0,
      confidence_max = Some 2\<rparr>
   = [SEED_CHALLENGES ! 0]"
  using filter_candidates_effective
    [of "\<lparr>mood = Some ''social'', environment = Some [], confidence_min = Some 0,
          confidence_max = Some 2\<rparr>"]
  by (simp add: satisfies_effective_def SEED_CHALLENGES_def)

section \<open>The no-match error\<close>

text \<open>
  Claim C5. When the candidate set is empty, \<^verbatim>\<open>get_next_challenge\<close> fails with the 404
  exception and returns no challenge; when it is not empty, the call returns one of the
  candidates and raises nothing.
\<close>

theorem get_next_challenge_no_match:
  "(filter_candidates f = [] \<longrightarrow>
      get_next_challenge f now =
        Inl (HTTPException 404 ''No challenges match those filters yet''))
   \<and> (filter_candidates f \<noteq> [] \<longrightarrow>
      (\<exists>c. c \<in> set (filter_candidates f) \<and> get_next_challenge f now = Inr c))"
proof (cases "filter_candidates f = []")
  case True
  then show ?thesis
    by (simp add: get_next_challenge_def select_for_day_empty)
next
  case False
  have "nat (toordinal now mod int (length (filter_candidates f))) < length (filter_candidates f)"
    using day_index_in_range [OF False, of now] by linarith
  then have "filter_candidates f ! nat (toordinal now mod int (length (filter_candidates f)))
               \<in> set (filter_candidates f)"
    by (rule nth_mem)
  with False show ?thesis
    by (simp add: get_next_challenge_def select_for_day_nonempty)
qed

theorem get_next_challenge_no_match_witness:
  "filter_candidates
     \<lparr>mood = Some ''solo'', environment = Some ''home'', confidence_min = None,
      confidence_max = None\<rparr> = []
   \<and> get_next_challenge
       \<lparr>mood = Some ''solo'', environment = Some ''home'', confidence_min = None,
        confidence_max = None\<rparr> (Datetime 0)
     = Inl (HTTPException 404 ''No challenges match those filters yet'')
   \<and> filter_candidates
       \<lparr>mood = Some ''solo'', environment = None, confidence_min = None,
        confidence_max = None\<rparr> \<noteq> []
   \<and> (\<exists>c. c \<in> set (filter_candidates
                     \<lparr>mood = Some ''solo'', environment = None, confidence_min = None,
                      confidence_max = None\<rparr>)
         \<and> get_next_challenge
             \<lparr>mood = Some ''solo'', environment = None, confidence_min = None,
              confidence_max = None\<rparr> (Datetime 0) = Inr c)"
proof -
  let ?f = "\<lparr>mood = Some ''solo'', environment = Some ''home'', confidence_min = None,
             confidence_max = None\<rparr>"
  let ?g = "\<lparr>mood = Some ''solo'', environment = None, confidence_min = None,
             confidence_max = None\<rparr>"
  have e: "filter_candidates ?f = []"
    by (simp add: filter_candidates_def truthy_str_def SEED_CHALLENGES_def)
  have n: "filter_candidates ?g \<noteq> []"
    by (simp add: filter_candidates_def truthy_str_def SEED_CHALLENGES_def)
  from e get_next_challenge_no_match [of ?f "Datetime 0"]
  have a: "get_next_challenge ?f (Datetime 0)
             = Inl (HTTPException 404 ''No challenges match those filters yet'')"
    by blast
  from n get_next_challenge_no_match [of ?g "Datetime 0"]
  have b: "\<exists>c. c \<in> set (filter_candidates ?g) \<and> get_next_challenge ?g (Datetime 0) = Inr c"
    by blast
  from e a n b show ?thesis by blast
qed

section \<open>Accrual\<close>

lemma find_one_update_one:
  assumes "\<And>d. u_id (upd d) = u_id d"
  shows "find_one q (update_one q upd ds) = map_option upd (find_one q ds)"
  using assms by (induction ds) simp_all

lemma u_id_set_and_inc: "u_id (set_and_inc now k g d) = u_id d"
  by (simp add: set_and_inc_def)

lemma ReflectionSchema_valid:
  assumes "rq_mood_before payload \<in> {1..5}" and "rq_mood_after payload \<in> {1..5}"
  shows "ReflectionSchema payload = Inr payload"
  using assms by (simp add: ReflectionSchema_def)

lemma submit_reflection_found:
  assumes "rq_mood_before payload \<in> {1..5}" and "rq_mood_after payload \<in> {1..5}"
    and "find_one (IdIs (Str (rq_user_id payload))) (user_coll s) = Some u"
    and "accrue (date_of (t_today env)) u = (g, k)"
  shows "submit_reflection env payload (Some s) =
           (Inr (py_str (new_id env)),
            Some \<lparr>user_coll = update_one (IdIs (Str (rq_user_id payload)))
                                 (set_and_inc (t_update env) k g) (user_coll s),
                  reflection_coll = reflection_coll s @
                    [\<lparr>r_id = new_id env, r_user_id = rq_user_id payload,
                      r_challenge_id = rq_challenge_id payload,
                      r_mood_before = rq_mood_before payload,
                      r_mood_after = rq_mood_after payload,
                      r_note = rq_note payload, r_is_public = rq_is_public payload,
                      r_created_at = t_insert env\<rparr>]\<rparr>)"
  using assms(3,4)
  by (simp add: submit_reflection_def ReflectionSchema_valid [OF assms(1,2)]
      create_document_def)

lemma submit_reflection_found_user:
  assumes "rq_mood_before payload \<in> {1..5}" and "rq_mood_after payload \<in> {1..5}"
    and "find_one (IdIs (Str (rq_user_id payload))) (user_coll s) = Some u"
    and "accrue (date_of (t_today env)) u = (g, k)"
  shows "\<exists>s'. submit_reflection env payload (Some s) = (Inr (py_str (new_id env)), Some s')
            \<and> find_one (IdIs (Str (rq_user_id payload))) (user_coll s')
                = Some (set_and_inc (t_update env) k g u)"
  using assms(3)
  by (simp add: submit_reflection_found [OF assms] find_one_update_one u_id_set_and_inc)

lemma accrue_same_day:
  assumes "map_option date_of (u_last_completed_at u) = Some today"
  shows "accrue today u = (5, get_streak u)"
  using assms by (simp add: accrue_def)

lemma accrue_other_day:
  assumes "map_option date_of (u_last_completed_at u) \<noteq> Some today"
  shows "accrue today u =
           (10, if (\<exists>t. u_last_completed_at u = Some t \<and> ordinal today - ordinal (date_of t) = 1)
                then get_streak u + 1 else 1)"
  using assms by (cases "u_last_completed_at u") (simp_all add: accrue_def days_between_def)

text \<open>
  Claim C1. When the stored last-completed date is the date of the clock reading of line
  206, a \<^verbatim>\<open>submit_reflection\<close> that finds the user adds exactly 5 to the XP, stores the
  streak it read (the value is unchanged) and stores the clock reading of line 223 as
  \<^verbatim>\<open>last_completed_at\<close>. The request is one the schema accepts (moods in 1..5) and the
  database is configured.
\<close>

theorem same_day_accrual:
  assumes "rq_mood_before payload \<in> {1..5}" and "rq_mood_after payload \<in> {1..5}"
    and "find_one (IdIs (Str (rq_user_id payload))) (user_coll s) = Some u"
    and "map_option date_of (u_last_completed_at u) = Some (date_of (t_today env))"
  shows "\<exists>s'. submit_reflection env payload (Some s) = (Inr (py_str (new_id env)), Some s')
            \<and> find_one (IdIs (Str (rq_user_id payload))) (user_coll s')
                = Some (u\<lparr>u_last_completed_at := Some (t_update env),
                           u_streak := Some (get_streak u),
                           u_xp := Some (get_xp u + 5)\<rparr>)"
  using submit_reflection_found_user [OF assms(1,2,3) accrue_same_day [OF assms(4)]]
  by (simp add: set_and_inc_def)

text \<open>The same-day example of the specification: 30 XP and a streak of 3 become 35 and 3.\<close>

theorem same_day_accrual_witness:
  "rq_mood_before example_request \<in> {1..5} \<and> rq_mood_after example_request \<in> {1..5}
   \<and> find_one (IdIs (Str (rq_user_id example_request))) (user_coll example_db)
       = Some example_user
   \<and> map_option date_of (u_last_completed_at example_user)
       = Some (date_of (t_today (example_at t_jan5_23)))
   \<and> (\<exists>s'. submit_reflection (example_at t_jan5_23) example_request (Some example_db)
              = (Inr ''65a0c0ffee0000000000cafe'', Some s')
          \<and> find_one (IdIs (Str ''u1'')) (user_coll s')
              = Some (example_user\<lparr>u_last_completed_at := Some t_jan5_23,
                                     u_streak := Some 3, u_xp := Some 35\<rparr>))"
proof -
  have m: "rq_mood_before example_request \<in> {1..5}" "rq_mood_after example_request \<in> {1..5}"
    by (simp_all add: example_request_def)
  have f: "find_one (IdIs (Str (rq_user_id example_request))) (user_coll example_db)
             = Some example_user"
    by (simp add: example_request_def example_db_def example_user_def)
  have d: "map_option date_of (u_last_completed_at example_user)
             = Some (date_of (t_today (example_at t_jan5_23)))"
    by (simp add: example_user_def example_at_def t_jan5_10_def t_jan5_23_def date_of_def
        us_per_day_def)
  have v: "get_streak example_user = 3" "get_xp example_user + 5 = 35"
    "rq_user_id example_request = ''u1''"
    "py_str (new_id (example_at t_jan5_23)) = ''65a0c0ffee0000000000cafe''"
    "t_update (example_at t_jan5_23) = t_jan5_23"
    by (simp_all add: get_streak_def get_xp_def example_user_def example_request_def
        example_at_def)
  from same_day_accrual [OF m f d, unfolded v]
  show ?thesis using m f d by blast
qed

text \<open>
  Claim C2. When the stored last-completed date is not today (or there is none), a
  \<^verbatim>\<open>submit_reflection\<close> that finds the user adds exactly 10 to the XP; the new streak is
  the old one plus 1 when the last-completed date is exactly one day before today, and 1
  otherwise.
\<close>

theorem new_day_accrual:
  assumes "rq_mood_before payload \<in> {1..5}" and "rq_mood_after payload \<in> {1..5}"
    and "find_one (IdIs (Str (rq_user_id payload))) (user_coll s) = Some u"
    and "map_option date_of (u_last_completed_at u) \<noteq> Some (date_of (t_today env))"
  shows "\<exists>s'. submit_reflection env payload (Some s) = (Inr (py_str (new_id env)), Some s')
            \<and> find_one (IdIs (Str (rq_user_id payload))) (user_coll s')
                = Some (u\<lparr>u_last_completed_at := Some (t_update env),
                           u_streak := Some
                             (if (\<exists>t. u_last_completed_at u = Some t \<and>
                                   ordinal (date_of (t_today env)) - ordinal (date_of t) = 1)
                              then get_streak u + 1 else 1),
                           u_xp := Some (get_xp u + 10)\<rparr>)"
  using submit_reflection_found_user [OF assms(1,2,3) accrue_other_day [OF assms(4)]]
  by (simp add: set_and_inc_def)

text \<open>The continuation example of the specification: the streak of 3 becomes 4.\<close>

theorem new_day_accrual_witness:
  "rq_mood_before example_request \<in> {1..5} \<and> rq_mood_after example_request \<in> {1..5}
   \<and> find_one (IdIs (Str (rq_user_id example_request))) (user_coll example_db)
       = Some example_user
   \<and> map_option date_of (u_last_completed_at example_user)
       \<noteq> Some (date_of (t_today (example_at t_jan6_09)))
   \<and> (\<exists>s'. submit_reflection (example_at t_jan6_09) example_request (Some example_db)
              = (Inr ''65a0c0ffee0000000000cafe'', Some s')
          \<and> find_one (IdIs (Str ''u1'')) (user_coll s')
              = Some (example_user\<lparr>u_last_completed_at := Some t_jan6_09,
                                     u_streak := Some 4, u_xp := Some 40\<rparr>))"
proof -
  have m: "rq_mood_before example_request \<in> {1..5}" "rq_mood_after example_request \<in> {1..5}"
    by (simp_all add: example_request_def)
  have f: "find_one (IdIs (Str (rq_user_id example_request))) (user_coll example_db)
             = Some example_user"
    by (simp add: example_request_def example_db_def example_user_def)
  have d: "map_option date_of (u_last_completed_at example_user)
             \<noteq> Some (date_of (t_today (example_at t_jan6_09)))"
    by (simp add: example_user_def example_at_def t_jan5_10_def t_jan6_09_def date_of_def
        us_per_day_def)
  have c: "(\<exists>t. u_last_completed_at example_user = Some t \<and>
              ordinal (date_of (t_today (example_at t_jan6_09))) - ordinal (date_of t) = 1)
           = True"
    by (simp add: example_user_def example_at_def t_jan5_10_def t_jan6_09_def date_of_def
        us_per_day_def)
  have v: "get_streak example_user + 1 = 4" "get_xp example_user + 10 = 40"
    "rq_user_id example_request = ''u1''"
    "py_str (new_id (example_at t_jan6_09)) = ''65a0c0ffee0000000000cafe''"
    "t_update (example_at t_jan6_09) = t_jan6_09"
    by (simp_all add: get_streak_def get_xp_def example_user_def example_request_def
        example_at_def)
  from new_day_accrual [OF m f d, unfolded c if_True v]
  show ?thesis using m f d by blast
qed

text \<open>
  Claim C8. When no stored user has the identifier of the request, \<^verbatim>\<open>submit_reflection\<close>
  returns the identifier of the reflection it persisted, raises nothing, and leaves the
  collection of users exactly as it was: the only change is the appended reflection.
\<close>

theorem missing_user_skips_accrual:
  assumes "rq_mood_before payload \<in> {1..5}" and "rq_mood_after payload \<in> {1..5}"
    and "find_one (IdIs (Str (rq_user_id payload))) (user_coll s) = None"
  shows "submit_reflection env payload (Some s) =
           (Inr (py_str (new_id env)),
            Some \<lparr>user_coll = user_coll s,
                  reflection_coll = reflection_coll s @
                    [\<lparr>r_id = new_id env, r_user_id = rq_user_id payload,
                      r_challenge_id = rq_challenge_id payload,
                      r_mood_before = rq_mood_before payload,
                      r_mood_after = rq_mood_after payload,
                      r_note = rq_note payload, r_is_public = rq_is_public payload,
                      r_created_at = t_insert env\<rparr>]\<rparr>)"
  using assms(3)
  by (simp add: submit_reflection_def ReflectionSchema_valid [OF assms(1,2)]
      create_document_def)

text \<open>
  The only stored user has the ObjectId, not the string, as its identifier: the string
  of the request matches no user.
\<close>

theorem missing_user_skips_accrual_witness:
  "rq_mood_before example_request \<in> {1..5} \<and> rq_mood_after example_request \<in> {1..5}
   \<and> find_one (IdIs (Str (rq_user_id example_request)))
         (user_coll \<lparr>user_coll = [example_user\<lparr>u_id := ObjectId ''u1''\<rparr>],
                     reflection_coll = []\<rparr>) = None
   \<and> submit_reflection (example_at t_jan6_09) example_request
        (Some \<lparr>user_coll = [example_user\<lparr>u_id := ObjectId ''u1''\<rparr>], reflection_coll = []\<rparr>)
      = (Inr ''65a0c0ffee0000000000cafe'',
         Some \<lparr>user_coll = [example_user\<lparr>u_id := ObjectId ''u1''\<rparr>],
               reflection_coll =
                 [\<lparr>r_id = ObjectId ''65a0c0ffee0000000000cafe'', r_user_id = ''u1'',
                   r_challenge_id = ''c1'', r_mood_before = 2, r_mood_after = 4,
                   r_note = None, r_is_public = True, r_created_at = t_jan6_09\<rparr>]\<rparr>)"
proof -
  let ?s = "\<lparr>user_coll = [example_user\<lparr>u_id := ObjectId ''u1''\<rparr>], reflection_coll = []\<rparr>"
  have m: "rq_mood_before example_request \<in> {1..5}" "rq_mood_after example_request \<in> {1..5}"
    by (simp_all add: example_request_def)
  have f: "find_one (IdIs (Str (rq_user_id example_request))) (user_coll ?s) = None"
    by (simp add: example_request_def example_user_def)
  from missing_user_skips_accrual [OF m f, of "example_at t_jan6_09"]
  have "submit_reflection (example_at t_jan6_09) example_request (Some ?s)
      = (Inr ''65a0c0ffee0000000000cafe'',
         Some \<lparr>user_coll = [example_user\<lparr>u_id := ObjectId ''u1''\<rparr>],
               reflection_coll =
                 [\<lparr>r_id = ObjectId ''65a0c0ffee0000000000cafe'', r_user_id = ''u1'',
                   r_challenge_id = ''c1'', r_mood_before = 2, r_mood_after = 4,
                   r_note = None, r_is_public = True, r_created_at = t_jan6_09\<rparr>]\<rparr>)"
    by (simp add: example_request_def example_at_def)
  with m f show ?thesis by blast
qed

lemma accrue_cases:
  assumes "accrue today u = (g, k)"
  shows "(g = 5 \<or> g = 10) \<and> (k = get_streak u \<or> k = get_streak u + 1 \<or> k = 1)"
  using assms by (auto simp: accrue_def Let_def split: if_splits)

text \<open>
  Claim C9. In every accrual transition the XP grows strictly, by 5 or by 10; the new
  streak is the old one, the old one plus 1, or exactly 1, and it is not negative when
  the old one was not.
\<close>

theorem accrual_monotone:
  assumes "rq_mood_before payload \<in> {1..5}" and "rq_mood_after payload \<in> {1..5}"
    and "find_one (IdIs (Str (rq_user_id payload))) (user_coll s) = Some u"
  shows "\<exists>s' u'. submit_reflection env payload (Some s) = (Inr (py_str (new_id env)), Some s')
            \<and> find_one (IdIs (Str (rq_user_id payload))) (user_coll s') = Some u'
            \<and> get_xp u < get_xp u'
            \<and> (get_xp u' = get_xp u + 5 \<or> get_xp u' = get_xp u + 10)
            \<and> (get_streak u' = get_streak u \<or> get_streak u' = get_streak u + 1
                 \<or> get_streak u' = 1)
            \<and> (0 \<le> get_streak u \<longrightarrow> 0 \<le> get_streak u')"
proof -
  obtain g k where a: "accrue (date_of (t_today env)) u = (g, k)"
    by (cases "accrue (date_of (t_today env)) u")
  from accrue_cases [OF a]
  have g: "g = 5 \<or> g = 10" and k: "k = get_streak u \<or> k = get_streak u + 1 \<or> k = 1"
    by blast+
  let ?u' = "set_and_inc (t_update env) k g u"
  have xp: "get_xp ?u' = get_xp u + g" and st: "get_streak ?u' = k"
    by (simp_all add: set_and_inc_def get_xp_def get_streak_def)
  from submit_reflection_found_user [OF assms a]
  obtain s' where r: "submit_reflection env payload (Some s) = (Inr (py_str (new_id env)), Some s')"
    and f: "find_one (IdIs (Str (rq_user_id payload))) (user_coll s') = Some ?u'"
    by blast
  have "get_xp u < get_xp ?u'" using g xp by auto
  moreover have "get_xp ?u' = get_xp u + 5 \<or> get_xp ?u' = get_xp u + 10" using g xp by auto
  moreover have "get_streak ?u' = get_streak u \<or> get_streak ?u' = get_streak u + 1
                 \<or> get_streak ?u' = 1" using k st by simp
  moreover have "0 \<le> get_streak u \<longrightarrow> 0 \<le> get_streak ?u'" using k st by auto
  ultimately show ?thesis using r f by blast
qed

theorem accrual_monotone_witness:
  "rq_mood_before example_request \<in> {1..5} \<and> rq_mood_after example_request \<in> {1..5}
   \<and> find_one (IdIs (Str (rq_user_id example_request))) (user_coll example_db)
       = Some example_user
   \<and> 0 \<le> get_streak example_user
   \<and> (\<exists>s' u'. submit_reflection (example_at t_jan8_09) example_request (Some example_db)
              = (Inr (py_str (new_id (example_at t_jan8_09))), Some s')
          \<and> find_one (IdIs (Str (rq_user_id example_request))) (user_coll s') = Some u'
          \<and> get_xp example_user < get_xp u' \<and> 0 \<le> get_streak u')"
proof -
  have m: "rq_mood_before example_request \<in> {1..5}" "rq_mood_after example_request \<in> {1..5}"
    by (simp_all add: example_request_def)
  have f: "find_one (IdIs (Str (rq_user_id example_request))) (user_coll example_db)
             = Some example_user"
    by (simp add: example_request_def example_db_def example_user_def)
  have p: "0 \<le> get_streak example_user"
    by (simp add: get_streak_def example_user_def)
  from accrual_monotone [OF m f, of "example_at t_jan8_09"] p
  have "\<exists>s' u'. submit_reflection (example_at t_jan8_09) example_request (Some example_db)
              = (Inr (py_str (new_id (example_at t_jan8_09))), Some s')
          \<and> find_one (IdIs (Str (rq_user_id example_request))) (user_coll s') = Some u'
          \<and> get_xp example_user < get_xp u' \<and> 0 \<le> get_streak u'"
    by blast
  with m f p show ?thesis by blast
qed

section \<open>Badges\<close>



section \<open>The gallery\<close>

lemma gallery_limit_zero:
  "gallery 0 (Some s) =
     Inr (map gallery_view (cursor_sort_desc [d \<leftarrow> reflection_coll s. r_is_public d]))"
  by (simp add: gallery_def cursor_limit_def)

lemma length_cursor_sort_desc: "length (cursor_sort_desc docs) = length docs"
  by (simp add: cursor_sort_desc_def)

lemma set_cursor_sort_desc: "set (cursor_sort_desc docs) = set docs"
  by (simp add: cursor_sort_desc_def)

text \<open>
  For a limit of at least 1 the gallery returns at most min(limit, 50) items, each the
  view of a public reflection, newest first.
\<close>

lemma gallery_positive_limit:
  assumes "1 \<le> limit"
  shows "\<exists>items. gallery limit (Some s) = Inr items
           \<and> int (length items) \<le> min limit 50
           \<and> set items \<subseteq> gallery_view ` {d \<in> set (reflection_coll s). r_is_public d}
           \<and> sorted_wrt (\<lambda>a b. micros (g_created_at a) \<ge> micros (g_created_at b)) items"
proof -
  let ?pub = "[d \<leftarrow> reflection_coll s. r_is_public d]"
  let ?docs = "take (nat (min limit 50)) (cursor_sort_desc ?pub)"
  have g: "gallery limit (Some s) = Inr (map gallery_view ?docs)"
    using assms by (simp add: gallery_def cursor_limit_def min_def)
  have "length ?docs \<le> nat (min limit 50)"
    by simp
  then have len: "int (length (map gallery_view ?docs)) \<le> min limit 50"
    using assms by (simp only: length_map)
  have sub: "set (map gallery_view ?docs) \<subseteq> gallery_view ` {d \<in> set (reflection_coll s). r_is_public d}"
    using set_take_subset [of "nat (min limit 50)" "cursor_sort_desc ?pub"]
    by (auto simp: set_cursor_sort_desc)
  have "sorted (map (\<lambda>d. - micros (r_created_at d)) (cursor_sort_desc ?pub))"
    by (simp add: cursor_sort_desc_def)
  then have "sorted (take (nat (min limit 50)) (map (\<lambda>d. - micros (r_created_at d)) (cursor_sort_desc ?pub)))"
    by (rule sorted_wrt_take)
  then have "sorted (map (\<lambda>d. - micros (r_created_at d)) ?docs)"
    by (simp add: take_map)
  then have srt: "sorted_wrt (\<lambda>a b. micros (g_created_at a) \<ge> micros (g_created_at b))
                    (map gallery_view ?docs)"
    by (simp add: sorted_wrt_map gallery_view_def)
  from g len sub srt show ?thesis by blast
qed

lemma crowded_public: "[d \<leftarrow> reflection_coll crowded_db. r_is_public d] = reflection_coll crowded_db"
  by (simp add: crowded_db_def filter_map o_def)

lemma length_crowded: "length (reflection_coll crowded_db) = 51"
  by (simp add: crowded_db_def)

text \<open>
  Claim C7 fails at the limit 0. The cursor is then given \<^verbatim>\<open>limit(min(0, 50))\<close>, that is
  \<^verbatim>\<open>limit(0)\<close>, which is no limit: with 51 public reflections stored the gallery returns
  all 51, more than min(0, 50) and more than the cap of 50.
\<close>

theorem gallery_limit_zero_exceeds_cap:
  "\<exists>items. gallery 0 (Some crowded_db) = Inr items \<and> length items = 51
           \<and> \<not> int (length items) \<le> min 0 50 \<and> \<not> length items \<le> 50"
proof -
  let ?items = "map gallery_view (cursor_sort_desc (reflection_coll crowded_db))"
  have g: "gallery 0 (Some crowded_db) = Inr ?items"
    by (simp add: gallery_limit_zero crowded_public)
  have n: "length ?items = 51"
    by (simp add: length_cursor_sort_desc length_crowded)
  have "\<not> int (length ?items) \<le> min 0 50" "\<not> length ?items \<le> 50"
    unfolding n by simp_all
  with g n show ?thesis by blast
qed

end
